theory Spec2Isabelle
  imports Main "HOL-Library.AList" "HOL-Library.Multiset"
begin

section \<open>Data model of \<^verbatim>\<open>baseOperations.ts\<close>\<close>

text \<open>
  Modelled from the spec: the enumeration \<^verbatim>\<open>myTypes.action\<close> (the module
  \<^verbatim>\<open>utils/myTypes\<close> is missing from the sources). Its members are \<^verbatim>\<open>save\<close>, \<^verbatim>\<open>get\<close>,
  \<^verbatim>\<open>remove\<close> and \<^verbatim>\<open>batch\<close>, the four that \<^verbatim>\<open>baseOperations.ts\<close> names.
\<close>

datatype action = action_save | action_get | action_remove | action_batch

text \<open>The module-level variable \<^verbatim>\<open>core\<close>, fixed when the module is loaded.\<close>

datatype core = CQL | SQL

text \<open>
  Modelled from the spec: the type \<^verbatim>\<open>myTypes.CQLResponseError\<close> (missing from the
  sources) of the value a backend call rejects with: an error code and a message,
  the two fields the \<^verbatim>\<open>catch\<close> handler of \<^verbatim>\<open>BatchOperation.execute\<close> reads.
\<close>

record CQLResponseError =
  code :: int
  message :: string

text \<open>
  What a call of this module can throw: an \<^verbatim>\<open>Error\<close> made here with a message, the
  one module-level object \<^verbatim>\<open>tableCreationError\<close> (recognised by identity), or the
  rejection value of a backend call, passed on as it is.
\<close>

datatype thrown =
    Error string
  | tableCreationError
  | Rejected CQLResponseError

text \<open>
  Modelled from the spec: the type \<^verbatim>\<open>myTypes.ServerAnswer\<close> (missing from the sources),
  the result envelope: it carries \<^verbatim>\<open>queryResults\<close>, which optionally contains
  \<^verbatim>\<open>allResultsEnc\<close> (the raw result list) and \<^verbatim>\<open>pageToken\<close>. These are the fields the
  code reads and writes. A JavaScript \<^verbatim>\<open>undefined\<close> field is \<open>None\<close>. All further
  fields of the two objects live in the extension slot of the record.
\<close>

record 'e QueryResults =
  allResultsEnc :: "'e list option"
  pageToken :: "string option"

record ('e, 'q) ServerAnswer =
  queryResults :: "('e, 'q) QueryResults_scheme option"

text \<open>
  Modelled from the spec: the type \<^verbatim>\<open>myTypes.DBentry\<close> (missing from the sources), the
  mapping from collection name to document identifier that is the key specification
  of a backend operation. It is an object with string keys, kept as the list of its own
  properties in insertion order. A value is a string, or \<open>None\<close> for a property
  holding \<^verbatim>\<open>undefined\<close> (\<^verbatim>\<open>SaveOperation.buildEntry\<close> stores \<^verbatim>\<open>this.object\<close> whatever it
  is). The options objects are opaque to this module; they are kept as a list of
  properties as well, \<^verbatim>\<open>{}\<close> being \<open>[]\<close>.
\<close>

type_synonym DBentry = "(string \<times> string option) list"

type_synonym options = "(string \<times> string) list"

text \<open>
  Modelled from the spec: the backend operations of the two adapter families (the
  classes of \<^verbatim>\<open>adapters/cql/CQLOperations\<close> and \<^verbatim>\<open>adapters/sql/SQLOperations\<close> are missing
  from the sources). A handle is the constructor called together with its arguments
  (\<^verbatim>\<open>action\<close>, \<^verbatim>\<open>keys\<close>, \<^verbatim>\<open>table\<close>, \<^verbatim>\<open>options\<close>; the member handles, for a batch); what
  its \<^verbatim>\<open>execute()\<close> settles with is a parameter of the functions that call it.
\<close>

datatype BackendOperation =
    CQLSaveOperation action DBentry string options
  | SQLSaveOperation action DBentry string options
  | CQLGetOperation action DBentry string options
  | SQLGetOperation action DBentry string options
  | CQLRemoveOperation action DBentry string
  | SQLRemoveOperation action DBentry string

datatype BackendBatch =
    CQLBatchOperation "BackendOperation list"
  | CQLOperationArray "BackendOperation list"
  | SQLBatchOperation "BackendOperation list"
  | SQLOperationArray "BackendOperation list"

text \<open>
  Modelled from the spec: the type \<^verbatim>\<open>myTypes.InternalOperationDescription\<close> (missing from
  the sources) of the argument of the constructors, with the fields the constructors
  read: \<^verbatim>\<open>action\<close>, \<^verbatim>\<open>collections\<close>, \<^verbatim>\<open>documents\<close>, \<^verbatim>\<open>opID\<close>, \<^verbatim>\<open>encObject\<close> and \<^verbatim>\<open>options\<close>.
\<close>

record InternalOperationDescription =
  req_action :: action
  req_collections :: "string list"
  req_documents :: "string list"
  req_opID :: string
  encObject :: "string option"
  req_options :: "options option"

text \<open>
  The classes of \<^verbatim>\<open>baseOperations.ts\<close>, a subclass as a record extension. The field
  \<^verbatim>\<open>orderer\<close> of a Get holds the \<^verbatim>\<open>order\<close> argument its \<^verbatim>\<open>Orderer\<close> was made from, and
  \<open>pageToken_field\<close> is the field \<^verbatim>\<open>pageToken\<close> that the class declares and never sets.
\<close>

record BaseOperation =
  action :: action
  collections :: "string list"
  documents :: "string list"
  table :: "string option"
  opID :: string
  operation :: "BackendOperation option"
  canCreateTable :: bool

record SaveOperation = BaseOperation +
  object :: "string option"
  save_options :: "options option"

record GetOperation = BaseOperation +
  get_options :: "options option"
  pageToken_field :: "string option"
  constResToken :: "string option"
  orderer :: "string list option"

record 'a BatchOperation =
  batch_action :: action
  operationsArray :: "'a BaseOperation_scheme list"
  isolation :: bool
  batch_operation :: "BackendBatch option"

text \<open>
  What a run does to its collaborators, in the order it does it: the backend calls,
  and the calls of the abstract methods \<^verbatim>\<open>createTable()\<close> and \<^verbatim>\<open>done()\<close> of a member.
\<close>

datatype 'a event =
    Execute BackendOperation
  | ExecuteBatch BackendBatch
  | CreateTable "'a BaseOperation_scheme"
  | Done "'a BaseOperation_scheme"

section \<open>Constructors\<close>

definition BaseOperation_new :: "InternalOperationDescription \<Rightarrow> BaseOperation" where
  "BaseOperation_new request =
     \<lparr>action = req_action request,
      collections = req_collections request,
      documents = req_documents request,
      table = None,
      opID = req_opID request,
      operation = None,
      canCreateTable = False\<rparr>"

definition SaveOperation_new :: "InternalOperationDescription \<Rightarrow> thrown + SaveOperation" where
  "SaveOperation_new request =
     (let this = BaseOperation_new request in
      if length (documents this) \<noteq> length (collections this)
      then Inl (Error ''Invalid path length parity for a save operation'')
      else if encObject request = None
      then Inl (Error ''Missing field object for a save operation'')
      else Inr (BaseOperation.extend (this\<lparr>action := action_save\<rparr>)
                  \<lparr>object = encObject request, save_options = req_options request\<rparr>))"

definition GetOperation_new ::
  "InternalOperationDescription \<Rightarrow> string option \<Rightarrow> string list option \<Rightarrow> GetOperation" where
  "GetOperation_new request token order =
     BaseOperation.extend ((BaseOperation_new request)\<lparr>action := action_get\<rparr>)
       \<lparr>get_options = req_options request,
        pageToken_field = None,
        constResToken = token,
        orderer = order\<rparr>"

definition RemoveOperation_new :: "InternalOperationDescription \<Rightarrow> BaseOperation" where
  "RemoveOperation_new request = (BaseOperation_new request)\<lparr>action := action_remove\<rparr>"

section \<open>\<^verbatim>\<open>BaseOperation\<close>: entry, table name, execution\<close>

text \<open>
  \<^verbatim>\<open>this.collections[i]\<close>, used as a property key: an index past the end of the
  array reads \<^verbatim>\<open>undefined\<close>, and a property key \<^verbatim>\<open>undefined\<close> is the string
  \<^verbatim>\<open>"undefined"\<close>.
\<close>

definition collection_key :: "string list \<Rightarrow> nat \<Rightarrow> string" where
  "collection_key cs i = (if i < length cs then cs ! i else ''undefined'')"

text \<open>
  \<^verbatim>\<open>entry[k] = v\<close> on an object made by the literal \<^verbatim>\<open>{}\<close>: an own property is
  written, in place when it is there already and behind the others when it is new.
  The key \<^verbatim>\<open>"__proto__"\<close> reaches the setter inherited from \<^verbatim>\<open>Object.prototype\<close>,
  which ignores a value that is a string or \<^verbatim>\<open>undefined\<close>: the object keeps the
  properties it had.
  (JavaScript enumerates keys that are array indices before the others; no statement
  here depends on the order.)
\<close>

definition set_property :: "string \<Rightarrow> string option \<Rightarrow> DBentry \<Rightarrow> DBentry" where
  "set_property k v entry = (if k = ''__proto__'' then entry else AList.update k v entry)"

text \<open>The loop of \<^verbatim>\<open>buildEntry\<close>: \<^verbatim>\<open>i\<close> runs over the indices of \<^verbatim>\<open>documents\<close>.\<close>

definition buildEntry_loop :: "string list \<Rightarrow> string list \<Rightarrow> DBentry" where
  "buildEntry_loop cs ds =
     fold (\<lambda>i entry. set_property (collection_key cs i) (Some (ds ! i)) entry)
       [0..<length ds] []"

text \<open>
  \<^verbatim>\<open>BaseOperation.buildEntry\<close>. The loop sits in a \<^verbatim>\<open>try\<close> whose handler throws
  \<^verbatim>\<open>"Wrong collection/document arguments in operation :"\<close>; on two arrays of strings
  no step of the loop throws (a read past the end of an array gives \<^verbatim>\<open>undefined\<close>),
  so the handler is never entered and the result is always the entry.
\<close>

definition BaseOperation_buildEntry :: "'a BaseOperation_scheme \<Rightarrow> thrown + DBentry" where
  "BaseOperation_buildEntry this = Inr (buildEntry_loop (collections this) (documents this))"

text \<open>\<^verbatim>\<open>SaveOperation.buildEntry\<close>: the entry of the base class, then \<^verbatim>\<open>entry["object"]\<close>.\<close>

definition SaveOperation_buildEntry :: "'a SaveOperation_scheme \<Rightarrow> thrown + DBentry" where
  "SaveOperation_buildEntry this =
     (case BaseOperation_buildEntry this of
        Inl err \<Rightarrow> Inl err
      | Inr entry \<Rightarrow> Inr (set_property ''object'' (object this) entry))"

text \<open>
  \<^verbatim>\<open>buildTableName\<close>: the loop pushes every collection name and a \<^verbatim>\<open>"_"\<close> after it,
  \<^verbatim>\<open>slice(0, -1)\<close> drops the last element (of an empty array it drops nothing) and
  \<^verbatim>\<open>join("")\<close> concatenates.
\<close>

fun buildTableName_loop :: "string list \<Rightarrow> string list \<Rightarrow> string list" where
  "buildTableName_loop [] res = res"
| "buildTableName_loop (c # cs) res = buildTableName_loop cs (res @ [c, ''_''])"

definition buildTableName :: "'a BaseOperation_scheme \<Rightarrow> string" where
  "buildTableName this = concat (butlast (buildTableName_loop (collections this) []))"

text \<open>
  \<^verbatim>\<open>BaseOperation.execute\<close>. The backend is a function from the handle to what its
  \<^verbatim>\<open>execute()\<close> settles with: \<open>Inl\<close> a rejection, \<open>Inr\<close> the answer. The result is the
  list of collaborator calls made, and what the call throws or returns.
\<close>

definition BaseOperation_execute ::
  "(BackendOperation \<Rightarrow> CQLResponseError + 's) \<Rightarrow> 'a BaseOperation_scheme
     \<Rightarrow> 'a event list \<times> (thrown + 's)" where
  "BaseOperation_execute backend this =
     (case operation this of
        None \<Rightarrow> ([], Inl (Error ''unable to execute CQL operation, query not built''))
      | Some h \<Rightarrow>
          ([Execute h],
           (case backend h of Inl err \<Rightarrow> Inl (Rejected err) | Inr res \<Rightarrow> Inr res)))"

section \<open>\<^verbatim>\<open>buildOperation\<close> of the three subclasses\<close>

text \<open>
  A call returns the object after the call and what it threw, if it threw. The field
  \<^verbatim>\<open>object\<close> of a Save is \<open>None\<close> when it is \<^verbatim>\<open>undefined\<close>.
\<close>

definition default_options :: "options option \<Rightarrow> options" where
  "default_options opts = (case opts of None \<Rightarrow> [] | Some x \<Rightarrow> x)"

definition SaveOperation_buildOperation ::
  "core \<Rightarrow> 'a SaveOperation_scheme \<Rightarrow> 'a SaveOperation_scheme \<times> thrown option" where
  "SaveOperation_buildOperation c this =
     (if object this = None then (this, Some (Error ''Operation entry undefined''))
      else case table this of
        None \<Rightarrow> (this, Some (Error ''Undefined table''))
      | Some t \<Rightarrow>
          (case SaveOperation_buildEntry this of
             Inl err \<Rightarrow> (this, Some err)
           | Inr entry \<Rightarrow>
               (this\<lparr>operation := Some
                  (if c = CQL
                   then CQLSaveOperation (action this) entry t (default_options (save_options this))
                   else SQLSaveOperation (action this) entry t (default_options (save_options this)))\<rparr>,
                None)))"

definition GetOperation_buildOperation ::
  "core \<Rightarrow> 'a GetOperation_scheme \<Rightarrow> 'a GetOperation_scheme \<times> thrown option" where
  "GetOperation_buildOperation c this =
     (case table this of
        None \<Rightarrow> (this, Some (Error ''Undefined table''))
      | Some t \<Rightarrow>
          (case BaseOperation_buildEntry this of
             Inl err \<Rightarrow> (this, Some err)
           | Inr entry \<Rightarrow>
               (this\<lparr>operation := Some
                  (if c = CQL
                   then CQLGetOperation (action this) entry t (default_options (get_options this))
                   else SQLGetOperation (action this) entry t (default_options (get_options this)))\<rparr>,
                None)))"

definition RemoveOperation_buildOperation ::
  "core \<Rightarrow> 'a BaseOperation_scheme \<Rightarrow> 'a BaseOperation_scheme \<times> thrown option" where
  "RemoveOperation_buildOperation c this =
     (case table this of
        None \<Rightarrow> (this, Some (Error ''Undefined table''))
      | Some t \<Rightarrow>
          (case BaseOperation_buildEntry this of
             Inl err \<Rightarrow> (this, Some err)
           | Inr entry \<Rightarrow>
               (this\<lparr>operation := Some
                  (if c = CQL
                   then CQLRemoveOperation (action this) entry t
                   else SQLRemoveOperation (action this) entry t)\<rparr>,
                None)))"

section \<open>\<^verbatim>\<open>GetOperation.execute\<close>\<close>

text \<open>
  \<^verbatim>\<open>this.collections.slice(-1)[0]\<close>: the last collection name, \<^verbatim>\<open>undefined\<close> for an
  empty path.
\<close>

definition last_collection :: "'a BaseOperation_scheme \<Rightarrow> string option" where
  "last_collection this =
     (case collections this of [] \<Rightarrow> None | c # cs \<Rightarrow> Some (last (c # cs)))"

text \<open>
  The class \<^verbatim>\<open>Orderer\<close> of \<^verbatim>\<open>utils/orderer\<close> is missing from the sources: its method
  \<^verbatim>\<open>order\<close> is the parameter \<open>order\<close>, from the argument the \<^verbatim>\<open>Orderer\<close> was made from,
  the list and the field name to a list.

  The two \<^verbatim>\<open>if\<close> statements follow the source: the first tests \<^verbatim>\<open>constResToken\<close> and
  \<^verbatim>\<open>queryResults\<close>, the second \<^verbatim>\<open>orderer\<close>, \<^verbatim>\<open>queryResults\<close> and \<^verbatim>\<open>allResultsEnc\<close>
  against \<^verbatim>\<open>undefined\<close>.
\<close>

definition stamp_pageToken ::
  "string option \<Rightarrow> ('e, 'q, 's) ServerAnswer_scheme \<Rightarrow> ('e, 'q, 's) ServerAnswer_scheme" where
  "stamp_pageToken tok res =
     (case tok of
        None \<Rightarrow> res
      | Some t \<Rightarrow>
          (case queryResults res of
             None \<Rightarrow> res
           | Some q \<Rightarrow> res\<lparr>queryResults := Some (q\<lparr>pageToken := Some t\<rparr>)\<rparr>))"

definition order_results ::
  "(string list \<Rightarrow> 'e list \<Rightarrow> string option \<Rightarrow> 'e list) \<Rightarrow> string list option
     \<Rightarrow> string option \<Rightarrow> ('e, 'q, 's) ServerAnswer_scheme \<Rightarrow> ('e, 'q, 's) ServerAnswer_scheme" where
  "order_results order ord field res =
     (case ord of
        None \<Rightarrow> res
      | Some spec \<Rightarrow>
          (case queryResults res of
             None \<Rightarrow> res
           | Some q \<Rightarrow>
               (case allResultsEnc q of
                  None \<Rightarrow> res
                | Some xs \<Rightarrow>
                    res\<lparr>queryResults := Some (q\<lparr>allResultsEnc := Some (order spec xs field)\<rparr>)\<rparr>)))"

definition GetOperation_execute ::
  "(string list \<Rightarrow> 'e list \<Rightarrow> string option \<Rightarrow> 'e list)
     \<Rightarrow> (BackendOperation \<Rightarrow> CQLResponseError + ('e, 'q, 's) ServerAnswer_scheme)
     \<Rightarrow> 'a GetOperation_scheme
     \<Rightarrow> 'a GetOperation_ext event list \<times> (thrown + ('e, 'q, 's) ServerAnswer_scheme)" where
  "GetOperation_execute order backend this =
     (case BaseOperation_execute backend this of
        (calls, Inl err) \<Rightarrow> (calls, Inl err)
      | (calls, Inr res) \<Rightarrow>
          (calls,
           Inr (order_results order (orderer this) (last_collection this)
                  (stamp_pageToken (constResToken this) res))))"

section \<open>\<^verbatim>\<open>BatchOperation\<close>\<close>

text \<open>The loop of the constructor over the members.\<close>

fun check_members :: "'a BaseOperation_scheme list \<Rightarrow> thrown option" where
  "check_members [] = None"
| "check_members (op # ops) =
     (if action op = action_batch \<or> action op = action_get
      then Some (Error ''Batch cannot contain batch or get operations'')
      else check_members ops)"

definition BatchOperation_new ::
  "'a BaseOperation_scheme list \<Rightarrow> bool \<Rightarrow> thrown + 'a BatchOperation" where
  "BatchOperation_new batch isol =
     (case check_members batch of
        Some err \<Rightarrow> Inl err
      | None \<Rightarrow>
          Inr \<lparr>batch_action = action_batch, operationsArray = batch, isolation = isol,
               batch_operation = None\<rparr>)"

definition push ::
  "'a BatchOperation \<Rightarrow> 'a BaseOperation_scheme \<Rightarrow> 'a BatchOperation \<times> thrown option" where
  "push this op =
     (if action op = action_batch \<or> action op = action_get
      then (this, Some (Error ''Batch cannot contain batch or get operations''))
      else (this\<lparr>operationsArray := operationsArray this @ [op]\<rparr>, None))"

text \<open>\<^verbatim>\<open>BatchOperation.buildOperation\<close>: both branches run the same loop.\<close>

fun collect_operations ::
  "'a BaseOperation_scheme list \<Rightarrow> BackendOperation list \<Rightarrow> thrown + BackendOperation list" where
  "collect_operations [] acc = Inr acc"
| "collect_operations (op # ops) acc =
     (case operation op of
        None \<Rightarrow> Inl (Error ''Batch error, a base operation is not built'')
      | Some h \<Rightarrow> collect_operations ops (acc @ [h]))"

definition BatchOperation_buildOperation ::
  "core \<Rightarrow> 'a BatchOperation \<Rightarrow> 'a BatchOperation \<times> thrown option" where
  "BatchOperation_buildOperation c this =
     (case collect_operations (operationsArray this) [] of
        Inl err \<Rightarrow> (this, Some err)
      | Inr hs \<Rightarrow>
          (this\<lparr>batch_operation := Some
             (if c = CQL
              then (if isolation this then CQLBatchOperation hs else CQLOperationArray hs)
              else (if isolation this then SQLBatchOperation hs else SQLOperationArray hs))\<rparr>,
           None))"

text \<open>
  The test of the \<^verbatim>\<open>catch\<close> handler. \<^verbatim>\<open>substr(0, 18)\<close> is the first 18 characters.
  The regular expression \<^verbatim>\<open>/^Collection ([a-zA-z_]*) does not exist./\<close> is anchored at
  the start only. Its class holds the characters from \<^verbatim>\<open>A\<close> to \<^verbatim>\<open>z\<close> in code order
  (the range \<^verbatim>\<open>A-z\<close> covers \<^verbatim>\<open>a-z\<close> and \<^verbatim>\<open>_\<close>), and its last \<^verbatim>\<open>.\<close> is any one character
  that is not a line terminator. \<open>match_name\<close> tries every length of the starred
  class, as backtracking does. A message is a \<open>string\<close> of 8-bit characters: the line
  terminators it can hold are the line feed and the carriage return.
\<close>

definition name_char :: "char \<Rightarrow> bool" where
  "name_char ch = (65 \<le> (of_char ch :: nat) \<and> (of_char ch :: nat) \<le> 122)"

definition line_terminator :: "char \<Rightarrow> bool" where
  "line_terminator ch = (ch = CHR 0x0A \<or> ch = CHR 0x0D)"

definition match_tail :: "string \<Rightarrow> bool" where
  "match_tail s =
     (take 15 s = '' does not exist'' \<and>
      (case drop 15 s of [] \<Rightarrow> False | ch # _ \<Rightarrow> \<not> line_terminator ch))"

fun match_name :: "string \<Rightarrow> bool" where
  "match_name [] = match_tail []"
| "match_name (ch # s) = ((name_char ch \<and> match_name s) \<or> match_tail (ch # s))"

definition collection_does_not_exist :: "string \<Rightarrow> bool" where
  "collection_does_not_exist msg =
     (take 11 msg = ''Collection '' \<and> match_name (drop 11 msg))"

definition table_missing :: "CQLResponseError \<Rightarrow> bool" where
  "table_missing err =
     ((code err = 8704 \<and> take 18 (message err) = ''unconfigured table'') \<or>
      collection_does_not_exist (message err))"

text \<open>
  A promise returned by \<^verbatim>\<open>createTable()\<close>: the time at which it settles, and the value
  it rejects with (\<open>None\<close> when it fulfils). \<^verbatim>\<open>Promise.all\<close> fulfils when every promise
  has fulfilled, and rejects with the value of the promise that rejects first (of two
  that settle together, the one earlier in the array).
\<close>

type_synonym promise = "nat \<times> CQLResponseError option"

fun first_rejection :: "promise list \<Rightarrow> (nat \<times> CQLResponseError) option" where
  "first_rejection [] = None"
| "first_rejection ((t, None) # ps) = first_rejection ps"
| "first_rejection ((t, Some err) # ps) =
     (case first_rejection ps of
        None \<Rightarrow> Some (t, err)
      | Some (t', err') \<Rightarrow> if t \<le> t' then Some (t, err) else Some (t', err'))"

definition Promise_all :: "promise list \<Rightarrow> CQLResponseError option" where
  "Promise_all ps = map_option snd (first_rejection ps)"

text \<open>
  \<^verbatim>\<open>createAllTables\<close>: the loop calls \<^verbatim>\<open>createTable()\<close> on the members that can create
  their table, in the order of the array, and collects the promises; the method then
  awaits \<^verbatim>\<open>Promise.all\<close> of them. The abstract method \<^verbatim>\<open>createTable\<close> is implemented by
  subclasses that are missing from the sources: the promise it returns for a member is
  a parameter.
\<close>

fun createAllTables_loop ::
  "('a BaseOperation_scheme \<Rightarrow> promise) \<Rightarrow> 'a BaseOperation_scheme list
     \<Rightarrow> 'a event list \<times> promise list" where
  "createAllTables_loop createTable [] = ([], [])"
| "createAllTables_loop createTable (op # ops) =
     (case createAllTables_loop createTable ops of
        (calls, promises) \<Rightarrow>
          if canCreateTable op
          then (CreateTable op # calls, createTable op # promises)
          else (calls, promises))"

definition createAllTables ::
  "('a BaseOperation_scheme \<Rightarrow> promise) \<Rightarrow> 'a BatchOperation
     \<Rightarrow> 'a event list \<times> CQLResponseError option" where
  "createAllTables createTable this =
     (case createAllTables_loop createTable (operationsArray this) of
        (calls, promises) \<Rightarrow> (calls, Promise_all promises))"

text \<open>
  \<^verbatim>\<open>BatchOperation.execute\<close>: the batch after the call, the collaborator calls made,
  and what the call throws or returns. The abstract method \<^verbatim>\<open>done()\<close> of a member
  returns nothing; a call of it is recorded.
\<close>

definition BatchOperation_execute ::
  "core \<Rightarrow> (BackendBatch \<Rightarrow> CQLResponseError + 's) \<Rightarrow> ('a BaseOperation_scheme \<Rightarrow> promise)
     \<Rightarrow> 'a BatchOperation \<Rightarrow> 'a BatchOperation \<times> 'a event list \<times> (thrown + 's)" where
  "BatchOperation_execute c backend createTable this =
     (case BatchOperation_buildOperation c this of
        (this', Some err) \<Rightarrow> (this', [], Inl err)
      | (this', None) \<Rightarrow>
          (case batch_operation this' of
             None \<Rightarrow> (this', [], Inl (Error ''Error in batch, operation not built''))
           | Some h \<Rightarrow>
               (case backend h of
                  Inl err \<Rightarrow>
                    if table_missing err
                    then (case createAllTables createTable this' of
                            (calls, Some err') \<Rightarrow> (this', ExecuteBatch h # calls, Inl (Rejected err'))
                          | (calls, None) \<Rightarrow> (this', ExecuteBatch h # calls, Inl tableCreationError))
                    else (this', [ExecuteBatch h], Inl (Rejected err))
                | Inr res \<Rightarrow>
                    (this', ExecuteBatch h # map Done (operationsArray this'), Inr res))))"

section \<open>The specification's wording, for comparison\<close>

text \<open>
  The Table Namer as the specification words it: the names of the path with one
  \<^verbatim>\<open>"_"\<close> between consecutive names, none before the first and none after the last.
\<close>

fun join_underscore :: "string list \<Rightarrow> string" where
  "join_underscore [] = []"
| "join_underscore [x] = x"
| "join_underscore (x # y # ys) = x @ ''_'' @ join_underscore (y # ys)"

section \<open>Table names\<close>

lemma buildTableName_loop_append:
  "buildTableName_loop cs res = res @ concat (map (\<lambda>c. [c, ''_'']) cs)"
  by (induction cs arbitrary: res) simp_all

lemma concat_butlast_pairs:
  "concat (butlast (concat (map (\<lambda>c. [c, ''_'']) cs))) = join_underscore cs"
  by (induction cs rule: join_underscore.induct) simp_all

lemma buildTableName_join: "buildTableName this = join_underscore (collections this)"
  by (simp add: buildTableName_def buildTableName_loop_append concat_butlast_pairs)

lemma split_at_separator:
  "a @ c # r = b @ c # r' \<Longrightarrow> c \<notin> set a \<Longrightarrow> c \<notin> set b \<Longrightarrow> a = b \<and> r = r'"
proof (induction a arbitrary: b)
  case Nil
  then show ?case by (cases b) auto
next
  case (Cons x a)
  then show ?case by (cases b) auto
qed

lemma join_underscore_inj:
  "length xs = length ys \<Longrightarrow> \<forall>x \<in> set xs \<union> set ys. CHR ''_'' \<notin> set x \<Longrightarrow>
   join_underscore xs = join_underscore ys \<Longrightarrow> xs = ys"
proof (induction xs ys rule: list_induct2)
  case Nil
  then show ?case by simp
next
  case (Cons x xs y ys)
  show ?case
  proof (cases xs)
    case Nil
    with Cons show ?thesis by simp
  next
    case xs: (Cons x' xs')
    then obtain y' ys' where ys: "ys = y' # ys'"
      using Cons.hyps by (cases ys) auto
    from Cons.prems(2)
    have "x @ CHR ''_'' # join_underscore xs = y @ CHR ''_'' # join_underscore ys"
      by (simp add: xs ys)
    moreover have "CHR ''_'' \<notin> set x" "CHR ''_'' \<notin> set y"
      using Cons.prems(1) by auto
    ultimately have "x = y \<and> join_underscore xs = join_underscore ys"
      by (rule split_at_separator)
    with Cons show ?thesis by auto
  qed
qed

text \<open>
  Claim C4, as stated, fails in its second half: the paths \<^verbatim>\<open>["a_b", "c"]\<close> and
  \<^verbatim>\<open>["a", "b_c"]\<close> have the same length, differ at every position and hold four
  different names, and both are named \<^verbatim>\<open>"a_b_c"\<close>.
\<close>

theorem buildTableName_injective_counterexample:
  "buildTableName
     (RemoveOperation_new \<lparr>req_action = action_remove, req_collections = [''a_b'', ''c''],
        req_documents = [], req_opID = ''1'', encObject = None, req_options = None\<rparr>) =
   buildTableName
     (RemoveOperation_new \<lparr>req_action = action_remove, req_collections = [''a'', ''b_c''],
        req_documents = [], req_opID = ''2'', encObject = None, req_options = None\<rparr>)
   \<and> length [''a_b'', ''c''] = length [''a'', ''b_c'']
   \<and> distinct [''a_b'', ''c'', ''a'', ''b_c'']
   \<and> [''a_b'', ''c''] \<noteq> [''a'', ''b_c'']"
  by (simp add: buildTableName_def RemoveOperation_new_def BaseOperation_new_def)

text \<open>
  Claim C4, amended: for every collection path, \<^verbatim>\<open>buildTableName()\<close> returns the names
  of the path joined with a single \<^verbatim>\<open>"_"\<close> between consecutive names, with no leading
  or trailing separator; and two paths of the same length whose names contain no
  \<^verbatim>\<open>"_"\<close> have the same table name only if they are the same path.
\<close>

theorem buildTableName_join_injective:
  fixes this that :: "'a BaseOperation_scheme"
  shows "buildTableName this = join_underscore (collections this) \<and>
    (length (collections that) = length (collections this) \<and>
     (\<forall>x \<in> set (collections that) \<union> set (collections this). CHR ''_'' \<notin> set x) \<and>
     buildTableName that = buildTableName this
     \<longrightarrow> collections that = collections this)"
  using join_underscore_inj [of "collections that" "collections this"]
  by (simp add: buildTableName_join)

theorem buildTableName_join_injective_witness:
  "buildTableName
     (RemoveOperation_new \<lparr>req_action = action_remove, req_collections = [''a'', ''b'', ''c''],
        req_documents = [], req_opID = ''1'', encObject = None, req_options = None\<rparr>) = ''a_b_c''
   \<and> buildTableName
     (RemoveOperation_new \<lparr>req_action = action_get, req_collections = [''a'', ''b'', ''c''],
        req_documents = [''7''], req_opID = ''2'', encObject = None, req_options = None\<rparr>) = ''a_b_c''
   \<and> collections
     (RemoveOperation_new \<lparr>req_action = action_get, req_collections = [''a'', ''b'', ''c''],
        req_documents = [''7''], req_opID = ''2'', encObject = None, req_options = None\<rparr>) =
     [''a'', ''b'', ''c'']"
  using buildTableName_join_injective
    [of "RemoveOperation_new \<lparr>req_action = action_remove, req_collections = [''a'', ''b'', ''c''],
           req_documents = [], req_opID = ''1'', encObject = None, req_options = None\<rparr>"
        "RemoveOperation_new \<lparr>req_action = action_get, req_collections = [''a'', ''b'', ''c''],
           req_documents = [''7''], req_opID = ''2'', encObject = None, req_options = None\<rparr>"]
  by (simp add: RemoveOperation_new_def BaseOperation_new_def buildTableName_def)

section \<open>Composition of a batch\<close>

lemma check_members_bad:
  "\<exists>m \<in> set batch. action m = action_get \<or> action m = action_batch \<Longrightarrow>
   check_members batch = Some (Error ''Batch cannot contain batch or get operations'')"
  by (induction batch) auto

lemma check_members_good:
  "\<forall>m \<in> set batch. action m = action_save \<or> action m = action_remove \<Longrightarrow>
   check_members batch = None"
  by (induction batch) auto

text \<open>
  Claim C5: the constructor of \<^verbatim>\<open>BatchOperation\<close> throws
  \<^verbatim>\<open>"Batch cannot contain batch or get operations"\<close> on every list that holds a member
  whose action is \<^verbatim>\<open>get\<close> or \<^verbatim>\<open>batch\<close> (such a list has at least one member), for either
  value of \<^verbatim>\<open>isolation\<close>, and \<^verbatim>\<open>push\<close> throws the same error on such a member and leaves
  the batch as it was; a list of \<^verbatim>\<open>save\<close> and \<^verbatim>\<open>remove\<close> members is accepted, and \<^verbatim>\<open>push\<close>
  appends such a member.
\<close>

theorem batch_composition:
  fixes batch :: "'a BaseOperation_scheme list" and this :: "'a BatchOperation"
  shows
  "((\<exists>m \<in> set batch. action m = action_get \<or> action m = action_batch) \<longrightarrow>
      BatchOperation_new batch isol = Inl (Error ''Batch cannot contain batch or get operations''))
   \<and> ((\<forall>m \<in> set batch. action m = action_save \<or> action m = action_remove) \<longrightarrow>
      BatchOperation_new batch isol =
        Inr \<lparr>batch_action = action_batch, operationsArray = batch, isolation = isol,
             batch_operation = None\<rparr>)
   \<and> (action op = action_get \<or> action op = action_batch \<longrightarrow>
      push this op = (this, Some (Error ''Batch cannot contain batch or get operations'')))
   \<and> (action op = action_save \<or> action op = action_remove \<longrightarrow>
      push this op = (this\<lparr>operationsArray := operationsArray this @ [op]\<rparr>, None))"
  using check_members_bad [of batch] check_members_good [of batch]
  by (auto simp: BatchOperation_new_def push_def)

theorem batch_composition_witness:
  "let s = BaseOperation_new \<lparr>req_action = action_save, req_collections = [''users''],
             req_documents = [''u1''], req_opID = ''1'', encObject = Some ''x'',
             req_options = None\<rparr>;
       g = BaseOperation_new \<lparr>req_action = action_get, req_collections = [''users''],
             req_documents = [''u1''], req_opID = ''2'', encObject = None, req_options = None\<rparr>;
       r = BaseOperation_new \<lparr>req_action = action_remove, req_collections = [''users''],
             req_documents = [''u1''], req_opID = ''3'', encObject = None, req_options = None\<rparr>;
       this = \<lparr>batch_action = action_batch, operationsArray = [s], isolation = True,
                batch_operation = None\<rparr>
   in BatchOperation_new [s, g] True =
        Inl (Error ''Batch cannot contain batch or get operations'') \<and>
      BatchOperation_new [s, r] False =
        Inr \<lparr>batch_action = action_batch, operationsArray = [s, r], isolation = False,
             batch_operation = None\<rparr> \<and>
      push this g = (this, Some (Error ''Batch cannot contain batch or get operations'')) \<and>
      push this r = (this\<lparr>operationsArray := [s, r]\<rparr>, None)"
  (is "let s = ?s; g = ?g; r = ?r; this = ?this s in _")
  using batch_composition [of "[?s, ?g]" True ?g "?this ?s"]
    batch_composition [of "[?s, ?r]" False ?r "?this ?s"]
  by (simp add: Let_def BaseOperation_new_def)

section \<open>Execution of a batch\<close>

lemma createAllTables_loop_eq:
  "createAllTables_loop createTable ops =
     (map CreateTable (filter canCreateTable ops), map createTable (filter canCreateTable ops))"
  by (induction ops) auto

lemma createAllTables_eq:
  "createAllTables createTable this =
     (map CreateTable (filter canCreateTable (operationsArray this)),
      Promise_all (map createTable (filter canCreateTable (operationsArray this))))"
  by (simp add: createAllTables_def createAllTables_loop_eq)

lemma first_rejection_None:
  "first_rejection ps = None \<longleftrightarrow> (\<forall>p \<in> set ps. snd p = None)"
  by (induction ps rule: first_rejection.induct) (auto split: option.splits)

lemma first_rejection_Some:
  "first_rejection ps = Some (t, err) \<Longrightarrow> (t, Some err) \<in> set ps"
  by (induction ps arbitrary: t err rule: first_rejection.induct)
     (auto split: option.splits if_splits)

lemma Promise_all_None: "Promise_all ps = None \<longleftrightarrow> (\<forall>p \<in> set ps. snd p = None)"
  by (simp add: Promise_all_def first_rejection_None)

lemma Promise_all_Some: "Promise_all ps = Some err \<Longrightarrow> \<exists>t. (t, Some err) \<in> set ps"
  by (auto simp: Promise_all_def dest: first_rejection_Some)

lemma collect_operations_built:
  "\<forall>m \<in> set ops. operation m \<noteq> None \<Longrightarrow> \<exists>hs. collect_operations ops acc = Inr hs"
  by (induction ops arbitrary: acc) auto

lemma buildOperation_built:
  "\<forall>m \<in> set (operationsArray this). operation m \<noteq> None \<Longrightarrow>
   \<exists>h. BatchOperation_buildOperation c this = (this\<lparr>batch_operation := Some h\<rparr>, None)"
  using collect_operations_built [of "operationsArray this" "[]"]
  by (auto simp: BatchOperation_buildOperation_def)

lemma buildOperation_members:
  "BatchOperation_buildOperation c this = (this', r) \<Longrightarrow>
   operationsArray this' = operationsArray this"
  by (auto simp: BatchOperation_buildOperation_def split: sum.splits)

text \<open>
  Claim C6: when the members are all built and the call of the composed backend
  operation succeeds, \<^verbatim>\<open>BatchOperation.execute\<close> makes that one backend call, then calls
  \<^verbatim>\<open>done()\<close> once on every member in the order of the array, and returns the answer of
  the backend as it is.
\<close>

theorem batch_execute_success:
  assumes "BatchOperation_buildOperation c this = (this', None)"
      and "batch_operation this' = Some h"
      and "backend h = Inr res"
  shows "BatchOperation_execute c backend createTable this =
           (this', ExecuteBatch h # map Done (operationsArray this), Inr res)"
  using assms buildOperation_members [OF assms(1)]
  by (simp add: BatchOperation_execute_def)

theorem batch_execute_success_witness:
  "let m1 = \<lparr>action = action_save, collections = [''users''], documents = [''u1''],
          table = Some ''users'', opID = ''1'',
          operation = Some (SQLSaveOperation action_save
            [(''users'', Some ''u1''), (''object'', Some ''x'')] ''users'' []),
          canCreateTable = True\<rparr>;
       m2 = \<lparr>action = action_remove, collections = [''logs''], documents = [''l1''],
          table = Some ''logs'', opID = ''2'',
          operation = Some (SQLRemoveOperation action_remove [(''logs'', Some ''l1'')] ''logs''),
          canCreateTable = False\<rparr>;
       this = \<lparr>batch_action = action_batch, operationsArray = [m1, m2], isolation = False,
          batch_operation = None\<rparr>;
       h = SQLOperationArray
         [SQLSaveOperation action_save [(''users'', Some ''u1''), (''object'', Some ''x'')]
            ''users'' [],
          SQLRemoveOperation action_remove [(''logs'', Some ''l1'')] ''logs''];
       res = (\<lparr>queryResults = None\<rparr> :: (string, unit) ServerAnswer)
   in BatchOperation_buildOperation SQL this = (this\<lparr>batch_operation := Some h\<rparr>, None) \<and>
      BatchOperation_execute SQL (\<lambda>h. Inr res) (\<lambda>m. (0, None)) this =
        (this\<lparr>batch_operation := Some h\<rparr>, [ExecuteBatch h, Done m1, Done m2], Inr res)"
  (is "let m1 = ?m1; m2 = ?m2; this = ?this m1 m2; h = ?h; res = ?res in _")
proof -
  have b: "BatchOperation_buildOperation SQL (?this ?m1 ?m2) =
             ((?this ?m1 ?m2)\<lparr>batch_operation := Some ?h\<rparr>, None)"
    by (simp add: BatchOperation_buildOperation_def)
  show ?thesis
    using b batch_execute_success [OF b, of ?h "\<lambda>h. Inr ?res" ?res "\<lambda>m. (0, None)"]
    by (simp add: Let_def)
qed

text \<open>
  Claim C2: when the members are all built and the call of the composed backend
  operation fails with an error that the handler does not classify as a missing table
  (neither code 8704 with a message that starts with \<^verbatim>\<open>"unconfigured table"\<close>, nor a
  message matching the collection-does-not-exist pattern), \<^verbatim>\<open>BatchOperation.execute\<close>
  makes that one backend call, no call of \<^verbatim>\<open>createTable()\<close> or \<^verbatim>\<open>done()\<close>, and throws the
  error of the backend itself.
\<close>

theorem batch_execute_other_error:
  assumes "BatchOperation_buildOperation c this = (this', None)"
      and "batch_operation this' = Some h"
      and "backend h = Inl err"
      and "\<not> table_missing err"
  shows "BatchOperation_execute c backend createTable this =
           (this', [ExecuteBatch h], Inl (Rejected err))"
  using assms by (simp add: BatchOperation_execute_def)

theorem batch_execute_other_error_witness:
  "let m1 = \<lparr>action = action_save, collections = [''users''], documents = [''u1''],
          table = Some ''users'', opID = ''1'',
          operation = Some (CQLSaveOperation action_save
            [(''users'', Some ''u1''), (''object'', Some ''x'')] ''users'' []),
          canCreateTable = True\<rparr>;
       this = \<lparr>batch_action = action_batch, operationsArray = [m1], isolation = True,
          batch_operation = None\<rparr>;
       h = CQLBatchOperation
         [CQLSaveOperation action_save [(''users'', Some ''u1''), (''object'', Some ''x'')]
            ''users'' []];
       err = \<lparr>code = 8704, message = ''Unconfigured table users''\<rparr>
   in \<not> table_missing err \<and>
      BatchOperation_execute CQL
        (\<lambda>h. (Inl err :: CQLResponseError + (string, unit) ServerAnswer))
        (\<lambda>m. (0, None)) this =
        (this\<lparr>batch_operation := Some h\<rparr>, [ExecuteBatch h], Inl (Rejected err))"
  (is "let m1 = ?m1; this = ?this m1; h = ?h; err = ?err in
       \<not> table_missing err \<and> BatchOperation_execute CQL (?backend err) ?createTable this = _")
proof -
  have b: "BatchOperation_buildOperation CQL (?this ?m1) =
             ((?this ?m1)\<lparr>batch_operation := Some ?h\<rparr>, None)"
    by (simp add: BatchOperation_buildOperation_def)
  have e: "\<not> table_missing ?err"
    by (simp add: table_missing_def collection_does_not_exist_def)
  show ?thesis
    using e batch_execute_other_error [OF b, of ?h "?backend ?err" ?err ?createTable]
    by (simp add: Let_def)
qed

text \<open>
  Claim C1, as stated, fails when a \<^verbatim>\<open>createTable()\<close> call rejects: the batch below has
  one built member that can create its table, the backend rejects with code 8704 and
  \<^verbatim>\<open>"unconfigured table users"\<close>, and the table creation rejects in its turn. The
  \<^verbatim>\<open>await\<close> of \<^verbatim>\<open>Promise.all\<close> throws that rejection, so \<^verbatim>\<open>execute\<close> throws it and not
  \<^verbatim>\<open>tableCreationError\<close>.
\<close>

theorem batch_execute_table_missing_counterexample:
  "table_missing \<lparr>code = 8704, message = ''unconfigured table users''\<rparr>
   \<and> BatchOperation_execute CQL
     (\<lambda>h. (Inl \<lparr>code = 8704, message = ''unconfigured table users''\<rparr>
            :: CQLResponseError + (string, unit) ServerAnswer))
     (\<lambda>m. (0, Some \<lparr>code = 0, message = ''keyspace unavailable''\<rparr>))
     \<lparr>batch_action = action_batch,
      operationsArray =
        [\<lparr>action = action_remove, collections = [''users''], documents = [''u1''],
          table = Some ''users'', opID = ''1'',
          operation = Some (CQLRemoveOperation action_remove [(''users'', Some ''u1'')] ''users''),
          canCreateTable = True\<rparr>],
      isolation = True, batch_operation = None\<rparr> =
   (\<lparr>batch_action = action_batch,
      operationsArray =
        [\<lparr>action = action_remove, collections = [''users''], documents = [''u1''],
          table = Some ''users'', opID = ''1'',
          operation = Some (CQLRemoveOperation action_remove [(''users'', Some ''u1'')] ''users''),
          canCreateTable = True\<rparr>],
      isolation = True,
      batch_operation = Some (CQLBatchOperation
        [CQLRemoveOperation action_remove [(''users'', Some ''u1'')] ''users''])\<rparr>,
    [ExecuteBatch (CQLBatchOperation
       [CQLRemoveOperation action_remove [(''users'', Some ''u1'')] ''users'']),
     CreateTable
       \<lparr>action = action_remove, collections = [''users''], documents = [''u1''],
        table = Some ''users'', opID = ''1'',
        operation = Some (CQLRemoveOperation action_remove [(''users'', Some ''u1'')] ''users''),
        canCreateTable = True\<rparr>],
    Inl (Rejected \<lparr>code = 0, message = ''keyspace unavailable''\<rparr>))
   \<and> Rejected \<lparr>code = 0, message = ''keyspace unavailable''\<rparr> \<noteq> tableCreationError"
  by (simp add: table_missing_def BatchOperation_execute_def BatchOperation_buildOperation_def
        createAllTables_def Promise_all_def)

text \<open>
  Claim C1, amended: when the members are all built and the call of the composed
  backend operation fails with an error that has code 8704 and a message starting with
  \<^verbatim>\<open>"unconfigured table"\<close>, or a message matching the collection-does-not-exist pattern,
  \<^verbatim>\<open>BatchOperation.execute\<close> calls \<^verbatim>\<open>createTable()\<close> on every member whose \<^verbatim>\<open>canCreateTable\<close>
  is true, in the order of the array, and on no other member, and then throws instead
  of returning. When every one of these calls fulfils, what it throws is
  \<^verbatim>\<open>tableCreationError\<close>, not the error of the backend; when one of them rejects, it
  throws the rejection of such a call.
\<close>

theorem batch_execute_table_missing:
  assumes "BatchOperation_buildOperation c this = (this', None)"
      and "batch_operation this' = Some h"
      and "backend h = Inl err"
      and "table_missing err"
  shows "\<exists>r. BatchOperation_execute c backend createTable this =
           (this',
            ExecuteBatch h # map CreateTable (filter canCreateTable (operationsArray this)),
            Inl r) \<and>
          ((\<forall>m \<in> set (operationsArray this). canCreateTable m \<longrightarrow> snd (createTable m) = None)
             \<longrightarrow> r = tableCreationError) \<and>
          ((\<exists>m \<in> set (operationsArray this). canCreateTable m \<and> snd (createTable m) \<noteq> None)
             \<longrightarrow> (\<exists>m \<in> set (operationsArray this). \<exists>err'. canCreateTable m \<and>
                    snd (createTable m) = Some err' \<and> r = Rejected err'))"
proof -
  let ?ops = "filter canCreateTable (operationsArray this)"
  have ops: "operationsArray this' = operationsArray this"
    using assms(1) by (rule buildOperation_members)
  show ?thesis
  proof (cases "Promise_all (map createTable ?ops)")
    case None
    then have "\<forall>m \<in> set ?ops. snd (createTable m) = None"
      by (simp add: Promise_all_None)
    with None show ?thesis
      using assms ops
      by (auto simp: BatchOperation_execute_def createAllTables_eq)
  next
    case (Some e)
    then obtain t where "(t, Some e) \<in> set (map createTable ?ops)"
      using Promise_all_Some by blast
    then obtain m where "m \<in> set (operationsArray this)" "canCreateTable m"
      "createTable m = (t, Some e)"
      by auto
    with Some show ?thesis
      using assms ops
      by (auto simp: BatchOperation_execute_def createAllTables_eq intro!: bexI [of _ m])
  qed
qed

theorem batch_execute_table_missing_witness:
  "let m1 = \<lparr>action = action_save, collections = [''users''], documents = [''u1''],
          table = Some ''users'', opID = ''1'',
          operation = Some (SQLSaveOperation action_save
            [(''users'', Some ''u1''), (''object'', Some ''x'')] ''users'' []),
          canCreateTable = True\<rparr>;
       m2 = \<lparr>action = action_remove, collections = [''logs''], documents = [''l1''],
          table = Some ''logs'', opID = ''2'',
          operation = Some (SQLRemoveOperation action_remove [(''logs'', Some ''l1'')] ''logs''),
          canCreateTable = False\<rparr>;
       m3 = \<lparr>action = action_remove, collections = [''orders''], documents = [''o1''],
          table = Some ''orders'', opID = ''3'',
          operation = Some (SQLRemoveOperation action_remove [(''orders'', Some ''o1'')] ''orders''),
          canCreateTable = True\<rparr>;
       this = \<lparr>batch_action = action_batch, operationsArray = [m1, m2, m3], isolation = True,
          batch_operation = None\<rparr>;
       h = SQLBatchOperation
         [SQLSaveOperation action_save [(''users'', Some ''u1''), (''object'', Some ''x'')]
            ''users'' [],
          SQLRemoveOperation action_remove [(''logs'', Some ''l1'')] ''logs'',
          SQLRemoveOperation action_remove [(''orders'', Some ''o1'')] ''orders''];
       err = \<lparr>code = 0, message = ''Collection users does not exist.''\<rparr>
   in table_missing err \<and>
      BatchOperation_execute SQL
        (\<lambda>h. (Inl err :: CQLResponseError + (string, unit) ServerAnswer))
        (\<lambda>m. (length (opID m), None)) this =
        (this\<lparr>batch_operation := Some h\<rparr>, [ExecuteBatch h, CreateTable m1, CreateTable m3],
         Inl tableCreationError) \<and>
      BatchOperation_execute SQL
        (\<lambda>h. (Inl err :: CQLResponseError + (string, unit) ServerAnswer))
        (\<lambda>m. (length (opID m), map_option (\<lambda>t. \<lparr>code = 1, message = t\<rparr>) (table m))) this =
        (this\<lparr>batch_operation := Some h\<rparr>, [ExecuteBatch h, CreateTable m1, CreateTable m3],
         Inl (Rejected \<lparr>code = 1, message = ''users''\<rparr>))"
  (is "let m1 = ?m1; m2 = ?m2; m3 = ?m3; this = ?this m1 m2 m3; h = ?h; err = ?err in
       table_missing err \<and>
       BatchOperation_execute SQL (?backend err) ?createTable this = _ \<and>
       BatchOperation_execute SQL (?backend err) ?createTable' this = _")
proof -
  have b: "BatchOperation_buildOperation SQL (?this ?m1 ?m2 ?m3) =
             ((?this ?m1 ?m2 ?m3)\<lparr>batch_operation := Some ?h\<rparr>, None)"
    by (simp add: BatchOperation_buildOperation_def)
  have e: "table_missing ?err"
    by (simp add: table_missing_def collection_does_not_exist_def match_tail_def
          name_char_def line_terminator_def)
  show ?thesis
    using e batch_execute_table_missing [OF b, of ?h "?backend ?err" ?err ?createTable]
      batch_execute_table_missing [OF b, of ?h "?backend ?err" ?err ?createTable']
    by (simp add: Let_def BatchOperation_execute_def BatchOperation_buildOperation_def
          createAllTables_def Promise_all_def)
qed

section \<open>Entries\<close>

lemma update_fresh: "k \<notin> fst ` set al \<Longrightarrow> AList.update k v al = al @ [(k, v)]"
  by (induction al) auto

lemma buildEntry_prefix:
  assumes "n \<le> length ds" "n \<le> length cs"
      and "distinct (take n cs)" "''__proto__'' \<notin> set (take n cs)"
  shows "fold (\<lambda>i entry. set_property (collection_key cs i) (Some (ds ! i)) entry) [0..<n] [] =
         zip (take n cs) (map Some (take n ds))"
  using assms
proof (induction n)
  case 0
  then show ?case by simp
next
  case (Suc n)
  let ?E = "zip (take n cs) (map Some (take n ds))"
  have n: "n < length cs" "n < length ds"
    using Suc.prems by auto
  have tk: "take (Suc n) cs = take n cs @ [cs ! n]" "take (Suc n) ds = take n ds @ [ds ! n]"
    using n by (simp_all add: take_Suc_conv_app_nth)
  have d: "distinct (take n cs)" "''__proto__'' \<notin> set (take n cs)"
          "cs ! n \<notin> set (take n cs)" "cs ! n \<noteq> ''__proto__''"
    using Suc.prems(3,4) by (auto simp: tk)
  have IH: "fold (\<lambda>i entry. set_property (collection_key cs i) (Some (ds ! i)) entry) [0..<n] [] = ?E"
    using Suc.IH n d by simp
  have keys: "fst ` set ?E = set (take n cs)"
    using n by (simp flip: set_map)
  have "set_property (collection_key cs n) (Some (ds ! n)) ?E = ?E @ [(cs ! n, Some (ds ! n))]"
    using n d keys by (simp add: set_property_def collection_key_def update_fresh)
  then show ?case
    using n by (simp add: IH tk)
qed

lemma buildEntry_loop_zip:
  assumes "length ds \<le> length cs"
      and "distinct (take (length ds) cs)" "''__proto__'' \<notin> set (take (length ds) cs)"
  shows "buildEntry_loop cs ds = zip (take (length ds) cs) (map Some ds)"
  using buildEntry_prefix [of "length ds" ds cs] assms
  by (simp add: buildEntry_loop_def)

lemma zip_lookup:
  assumes "length ds \<le> length cs" "distinct (take (length ds) cs)" "i < length ds"
  shows "map_of (zip (take (length ds) cs) (map Some ds)) (cs ! i) = Some (Some (ds ! i))"
proof -
  have "map_of (zip (take (length ds) cs) (map Some ds)) (take (length ds) cs ! i) =
          Some (map Some ds ! i)"
    using assms by (intro map_of_zip_nth) auto
  then show ?thesis
    using assms by simp
qed

lemma BaseOperation_buildEntry_ok:
  fixes this :: "'a BaseOperation_scheme"
  assumes "length (documents this) \<le> length (collections this)"
      and "distinct (take (length (documents this)) (collections this))"
      and "''__proto__'' \<notin> set (take (length (documents this)) (collections this))"
  shows "\<exists>entry. BaseOperation_buildEntry this = Inr entry \<and>
           length entry = length (documents this) \<and>
           distinct (map fst entry) \<and>
           (\<forall>i < length (documents this).
              map_of entry (collections this ! i) = Some (Some (documents this ! i)))"
  using assms zip_lookup [of "documents this" "collections this"]
  by (simp add: BaseOperation_buildEntry_def buildEntry_loop_zip)

lemma SaveOperation_buildEntry_ok:
  fixes this :: "'a SaveOperation_scheme"
  assumes "length (documents this) \<le> length (collections this)"
      and "distinct (take (length (documents this)) (collections this))"
      and "''__proto__'' \<notin> set (take (length (documents this)) (collections this))"
      and "''object'' \<notin> set (take (length (documents this)) (collections this))"
  shows "\<exists>entry. SaveOperation_buildEntry this = Inr entry \<and>
           length entry = length (documents this) + 1 \<and>
           distinct (map fst entry) \<and>
           map_of entry ''object'' = Some (object this) \<and>
           (\<forall>i < length (documents this).
              map_of entry (collections this ! i) = Some (Some (documents this ! i)))"
proof -
  let ?cs = "take (length (documents this)) (collections this)"
  let ?E = "zip ?cs (map Some (documents this))"
  let ?S = "?E @ [(''object'', object this)]"
  have E: "BaseOperation_buildEntry this = Inr ?E"
    using assms by (simp add: BaseOperation_buildEntry_def buildEntry_loop_zip)
  have "map fst ?E = ?cs"
    using assms(1) by simp
  then have keys: "fst ` set ?E = set ?cs"
    by (metis set_map)
  have S: "SaveOperation_buildEntry this = Inr ?S"
    using assms(4) keys by (simp add: SaveOperation_buildEntry_def E set_property_def update_fresh)
  have "\<forall>i < length (documents this).
          map_of ?S (collections this ! i) = Some (Some (documents this ! i))"
  proof (intro allI impI)
    fix i assume "i < length (documents this)"
    then have "map_of ?E (collections this ! i) = Some (Some (documents this ! i))"
      using assms(1,2) by (rule zip_lookup [rotated 2])
    then show "map_of ?S (collections this ! i) = Some (Some (documents this ! i))"
      by (simp add: map_add_def)
  qed
  moreover have "map_of ?S ''object'' = Some (object this)"
  proof -
    have "map_of ?E ''object'' = None"
      using assms(4) keys by (simp add: map_of_eq_None_iff)
    then show ?thesis
      by (simp add: map_add_def)
  qed
  moreover have "distinct (map fst ?S)"
    using assms(1,2,4) by simp
  moreover have "length ?S = length (documents this) + 1"
    using assms(1) by simp
  ultimately show ?thesis
    using S by blast
qed

lemma SaveOperation_new_parity:
  "length (req_documents request) \<noteq> length (req_collections request) \<Longrightarrow>
   SaveOperation_new request = Inl (Error ''Invalid path length parity for a save operation'')"
  by (simp add: SaveOperation_new_def BaseOperation_new_def)

text \<open>
  Claim C3, as stated, fails on both halves. With the equal-length arrays
  \<^verbatim>\<open>["a", "a"]\<close> and \<^verbatim>\<open>["1", "2"]\<close> the entry has one property, and \<^verbatim>\<open>entry["a"]\<close> is
  \<^verbatim>\<open>"2"\<close>, not \<^verbatim>\<open>documents[0]\<close>; a collection named \<^verbatim>\<open>"__proto__"\<close> gives no property at
  all; a Save on a collection named \<^verbatim>\<open>"object"\<close> has its key overwritten by the payload.
  With \<^verbatim>\<open>["users", "orders"]\<close> and the shorter \<^verbatim>\<open>["u1"]\<close>, \<^verbatim>\<open>buildEntry\<close> of a Get does not
  fail: it returns the entry of the first pair.
\<close>

theorem buildEntry_counterexample:
  "BaseOperation_buildEntry
     (GetOperation_new \<lparr>req_action = action_get, req_collections = [''a'', ''a''],
        req_documents = [''1'', ''2''], req_opID = ''1'', encObject = None,
        req_options = None\<rparr> None None) = Inr [(''a'', Some ''2'')]
   \<and> BaseOperation_buildEntry
     (GetOperation_new \<lparr>req_action = action_get, req_collections = [''__proto__''],
        req_documents = [''1''], req_opID = ''2'', encObject = None,
        req_options = None\<rparr> None None) = Inr []
   \<and> SaveOperation_buildEntry
     \<lparr>action = action_save, collections = [''object''], documents = [''o1''], table = None,
      opID = ''3'', operation = None, canCreateTable = False, object = Some ''payload'',
      save_options = None\<rparr> = Inr [(''object'', Some ''payload'')]
   \<and> BaseOperation_buildEntry
     (GetOperation_new \<lparr>req_action = action_get, req_collections = [''users'', ''orders''],
        req_documents = [''u1''], req_opID = ''4'', encObject = None,
        req_options = None\<rparr> None None) = Inr [(''users'', Some ''u1'')]"
  by (simp add: BaseOperation_buildEntry_def SaveOperation_buildEntry_def buildEntry_loop_def
        set_property_def collection_key_def GetOperation_new_def BaseOperation_new_def
        BaseOperation.extend_def upt_rec)

text \<open>
  Claim C3, amended: for all \<^verbatim>\<open>collections\<close> and \<^verbatim>\<open>documents\<close> arrays with \<^verbatim>\<open>documents\<close>
  of length \<^verbatim>\<open>n\<close> and no longer than \<^verbatim>\<open>collections\<close>, where the first \<^verbatim>\<open>n\<close> collection
  names are pairwise distinct and none of them is \<^verbatim>\<open>"__proto__"\<close> (nor \<^verbatim>\<open>"object"\<close>, for a
  Save), \<^verbatim>\<open>buildEntry\<close> returns, without failing, a mapping with exactly \<^verbatim>\<open>n\<close> entries
  (plus one \<^verbatim>\<open>"object"\<close> entry holding the payload for a Save) that satisfies
  \<^verbatim>\<open>entry[collections[i]] == documents[i]\<close> for every \<^verbatim>\<open>i < n\<close>. Arrays of unequal
  length are refused with a BuildError by the constructor of \<^verbatim>\<open>SaveOperation\<close>.
\<close>

theorem buildEntry_mapping:
  fixes this :: "'a BaseOperation_scheme" and s :: "'b SaveOperation_scheme"
  shows
  "(length (documents this) \<le> length (collections this) \<and>
    distinct (take (length (documents this)) (collections this)) \<and>
    ''__proto__'' \<notin> set (take (length (documents this)) (collections this)) \<longrightarrow>
      (\<exists>entry. BaseOperation_buildEntry this = Inr entry \<and>
         length entry = length (documents this) \<and>
         distinct (map fst entry) \<and>
         (\<forall>i < length (documents this).
            map_of entry (collections this ! i) = Some (Some (documents this ! i)))))
   \<and> (length (documents s) \<le> length (collections s) \<and>
    distinct (take (length (documents s)) (collections s)) \<and>
    ''__proto__'' \<notin> set (take (length (documents s)) (collections s)) \<and>
    ''object'' \<notin> set (take (length (documents s)) (collections s)) \<longrightarrow>
      (\<exists>entry. SaveOperation_buildEntry s = Inr entry \<and>
         length entry = length (documents s) + 1 \<and>
         distinct (map fst entry) \<and>
         map_of entry ''object'' = Some (object s) \<and>
         (\<forall>i < length (documents s).
            map_of entry (collections s ! i) = Some (Some (documents s ! i)))))
   \<and> (length (req_documents request) \<noteq> length (req_collections request) \<longrightarrow>
      SaveOperation_new request =
        Inl (Error ''Invalid path length parity for a save operation''))"
  using BaseOperation_buildEntry_ok [of this] SaveOperation_buildEntry_ok [of s]
    SaveOperation_new_parity [of request]
  by blast

theorem buildEntry_mapping_witness:
  "let g = GetOperation_new \<lparr>req_action = action_get, req_collections = [''users'', ''orders''],
             req_documents = [''u1'', ''o1''], req_opID = ''1'', encObject = None,
             req_options = None\<rparr> None None;
       s = \<lparr>action = action_save, collections = [''users'', ''orders''],
             documents = [''u1'', ''o1''], table = None, opID = ''2'', operation = None,
             canCreateTable = False, object = Some ''payload'', save_options = None\<rparr>;
       request = \<lparr>req_action = action_save, req_collections = [''users'', ''orders''],
             req_documents = [''u1''], req_opID = ''3'', encObject = Some ''payload'',
             req_options = None\<rparr>
   in BaseOperation_buildEntry g = Inr [(''users'', Some ''u1''), (''orders'', Some ''o1'')] \<and>
      SaveOperation_buildEntry s =
        Inr [(''users'', Some ''u1''), (''orders'', Some ''o1''), (''object'', Some ''payload'')] \<and>
      SaveOperation_new request =
        Inl (Error ''Invalid path length parity for a save operation'')"
  (is "let g = ?g; s = ?s; request = ?request in _")
  using buildEntry_mapping [of ?g ?s ?request]
  by (simp add: Let_def BaseOperation_buildEntry_def SaveOperation_buildEntry_def
        buildEntry_loop_def set_property_def collection_key_def GetOperation_new_def
        BaseOperation_new_def BaseOperation.extend_def upt_rec)

section \<open>Build before execute\<close>

text \<open>
  Claim C9: \<^verbatim>\<open>buildOperation()\<close> of a Save, a Get or a Remove whose \<^verbatim>\<open>table\<close> is \<^verbatim>\<open>null\<close>
  throws \<^verbatim>\<open>"Undefined table"\<close>, and \<^verbatim>\<open>"Operation entry undefined"\<close> for a Save whose
  \<^verbatim>\<open>object\<close> is undefined; the object is left as it was, so its \<^verbatim>\<open>operation\<close> stays
  \<^verbatim>\<open>null\<close>. \<^verbatim>\<open>execute()\<close> on an object whose \<^verbatim>\<open>operation\<close> is \<^verbatim>\<open>null\<close> throws
  \<^verbatim>\<open>"unable to execute CQL operation, query not built"\<close> and makes no backend call.
\<close>

theorem operation_not_ready:
  fixes s :: "'a SaveOperation_scheme" and g :: "'b GetOperation_scheme"
    and r :: "'c BaseOperation_scheme"
  shows "(object s = None \<longrightarrow>
            SaveOperation_buildOperation c s = (s, Some (Error ''Operation entry undefined''))) \<and>
         (object s \<noteq> None \<and> table s = None \<longrightarrow>
            SaveOperation_buildOperation c s = (s, Some (Error ''Undefined table''))) \<and>
         (table g = None \<longrightarrow>
            GetOperation_buildOperation c g = (g, Some (Error ''Undefined table''))) \<and>
         (table r = None \<longrightarrow>
            RemoveOperation_buildOperation c r = (r, Some (Error ''Undefined table''))) \<and>
         (operation r = None \<longrightarrow>
            BaseOperation_execute backend r =
              ([], Inl (Error ''unable to execute CQL operation, query not built''))) \<and>
         (operation g = None \<longrightarrow>
            GetOperation_execute order backend' g =
              ([], Inl (Error ''unable to execute CQL operation, query not built'')))"
  by (simp add: SaveOperation_buildOperation_def GetOperation_buildOperation_def
        RemoveOperation_buildOperation_def BaseOperation_execute_def GetOperation_execute_def)

theorem operation_not_ready_witness:
  "let request = \<lparr>req_action = action_save, req_collections = [''users''],
             req_documents = [''u1''], req_opID = ''1'', encObject = Some ''payload'',
             req_options = None\<rparr>;
       s = \<lparr>action = action_save, collections = [''users''], documents = [''u1''],
             table = None, opID = ''1'', operation = None, canCreateTable = False,
             object = Some ''payload'', save_options = None\<rparr>;
       g = GetOperation_new request (Some ''T1'') None;
       r = RemoveOperation_new request;
       res = (\<lparr>queryResults = None\<rparr> :: (string, unit) ServerAnswer)
   in SaveOperation_new request = Inr s \<and>
      SaveOperation_buildOperation CQL s = (s, Some (Error ''Undefined table'')) \<and>
      SaveOperation_buildOperation CQL (s\<lparr>table := Some ''users'', object := None\<rparr>) =
        (s\<lparr>table := Some ''users'', object := None\<rparr>, Some (Error ''Operation entry undefined'')) \<and>
      GetOperation_buildOperation SQL g = (g, Some (Error ''Undefined table'')) \<and>
      RemoveOperation_buildOperation SQL r = (r, Some (Error ''Undefined table'')) \<and>
      BaseOperation_execute (\<lambda>h. Inr res) r =
        ([], Inl (Error ''unable to execute CQL operation, query not built'')) \<and>
      GetOperation_execute (\<lambda>spec xs field. xs) (\<lambda>h. Inr res) g =
        ([], Inl (Error ''unable to execute CQL operation, query not built''))"
  (is "let request = ?request; s = ?s; g = ?g request; r = ?r request; res = ?res in
       _ \<and> _ \<and> _ \<and> _ \<and> _ \<and> BaseOperation_execute (?backend res) r = _ \<and>
       GetOperation_execute ?order (?backend' res) g = _")
  using operation_not_ready [of ?s CQL "?g ?request" "?r ?request" "?backend ?res" ?order
      "?backend' ?res"]
    operation_not_ready [of "?s\<lparr>table := Some ''users'', object := None\<rparr>" CQL "?g ?request"
      "?r ?request" "?backend ?res" ?order "?backend' ?res"]
    operation_not_ready [of ?s SQL "?g ?request" "?r ?request" "?backend ?res" ?order
      "?backend' ?res"]
  by (simp add: Let_def SaveOperation_new_def GetOperation_new_def RemoveOperation_new_def
        BaseOperation_new_def BaseOperation.extend_def)

section \<open>The answer of a Get\<close>

lemma GetOperation_execute_built:
  assumes "operation this = Some h" and "backend h = Inr res"
  shows "GetOperation_execute order backend this =
           ([Execute h],
            Inr (order_results order (orderer this) (last_collection this)
                   (stamp_pageToken (constResToken this) res)))"
  using assms by (simp add: GetOperation_execute_def BaseOperation_execute_def)

text \<open>
  Claim C7: the constructor of \<^verbatim>\<open>GetOperation\<close> keeps its \<^verbatim>\<open>pageToken\<close> argument in
  \<^verbatim>\<open>constResToken\<close>. When the operation is built, the backend answers and the answer has
  a \<^verbatim>\<open>queryResults\<close> object, the answer \<^verbatim>\<open>GetOperation.execute\<close> returns has a
  \<^verbatim>\<open>queryResults\<close> whose \<^verbatim>\<open>pageToken\<close> is that token when one was given, whatever the
  backend had put there, and the \<^verbatim>\<open>pageToken\<close> of the backend when none was given.
\<close>

theorem get_execute_pageToken:
  fixes this :: "'a GetOperation_scheme" and res :: "('e, 'q, 's) ServerAnswer_scheme"
  assumes "operation this = Some h" and "backend h = Inr res" and "queryResults res = Some q"
  shows "constResToken (GetOperation_new request tok ord) = tok \<and>
         (\<exists>r q'. GetOperation_execute order backend this = ([Execute h], Inr r) \<and>
            queryResults r = Some q' \<and>
            (\<forall>t. constResToken this = Some t \<longrightarrow> pageToken q' = Some t) \<and>
            (constResToken this = None \<longrightarrow> pageToken q' = pageToken q))"
  using assms
  by (auto simp: GetOperation_execute_built GetOperation_new_def BaseOperation.extend_def
        order_results_def stamp_pageToken_def split: option.splits)

theorem get_execute_pageToken_witness:
  "let request = \<lparr>req_action = action_get, req_collections = [''users''],
             req_documents = [], req_opID = ''1'', encObject = None, req_options = None\<rparr>;
       h = CQLGetOperation action_get [] ''users'' [];
       q = \<lparr>allResultsEnc = Some [''b'', ''a''], pageToken = Some ''backend''\<rparr>;
       res = \<lparr>queryResults = Some q\<rparr>
   in GetOperation_buildOperation CQL
        ((GetOperation_new request (Some ''T1'') None)\<lparr>table := Some ''users''\<rparr>) =
        ((GetOperation_new request (Some ''T1'') None)
           \<lparr>table := Some ''users'', operation := Some h\<rparr>, None) \<and>
      GetOperation_execute (\<lambda>spec xs field. xs) (\<lambda>h. Inr res)
        ((GetOperation_new request (Some ''T1'') None)
           \<lparr>table := Some ''users'', operation := Some h\<rparr>) =
        ([Execute h], Inr (res\<lparr>queryResults := Some (q\<lparr>pageToken := Some ''T1''\<rparr>)\<rparr>)) \<and>
      GetOperation_execute (\<lambda>spec xs field. xs) (\<lambda>h. Inr res)
        ((GetOperation_new request None None)
           \<lparr>table := Some ''users'', operation := Some h\<rparr>) =
        ([Execute h], Inr res)"
  (is "let request = ?request; h = ?h; q = ?q; res = ?res q in
       _ \<and> GetOperation_execute ?order (?backend res) (?this request h) = _ \<and>
       GetOperation_execute ?order (?backend res) (?that request h) = _")
  using get_execute_pageToken [of "?this ?request ?h" ?h "?backend (?res ?q)" "?res ?q" ?q
      ?request "Some ''T1''" None ?order]
    get_execute_pageToken [of "?that ?request ?h" ?h "?backend (?res ?q)" "?res ?q" ?q
      ?request None None ?order]
  by (simp add: Let_def GetOperation_execute_built GetOperation_buildOperation_def
        BaseOperation_buildEntry_def buildEntry_loop_def default_options_def
        order_results_def stamp_pageToken_def
        GetOperation_new_def BaseOperation_new_def BaseOperation.extend_def)

text \<open>
  Claim C8: the constructor of \<^verbatim>\<open>GetOperation\<close> keeps its \<^verbatim>\<open>order\<close> argument in the
  \<^verbatim>\<open>Orderer\<close>. When the operation is built and the answer of the backend carries a raw
  result list (empty or not), the answer returned carries, when an ordering was given,
  the list the external sorter returns for that list and the last collection name of
  the path (the same elements in another order, for a sorter that only reorders), and
  the list of the backend itself when no ordering was given.
\<close>

theorem get_execute_ordering:
  fixes this :: "'a GetOperation_scheme" and res :: "('e, 'q, 's) ServerAnswer_scheme"
  assumes "operation this = Some h" and "backend h = Inr res" and "queryResults res = Some q"
      and "allResultsEnc q = Some xs"
  shows "orderer (GetOperation_new request tok ord) = ord \<and>
         (collections this \<noteq> [] \<longrightarrow> last_collection this = Some (last (collections this))) \<and>
         (\<exists>r q' ys. GetOperation_execute order backend this = ([Execute h], Inr r) \<and>
            queryResults r = Some q' \<and> allResultsEnc q' = Some ys \<and>
            (\<forall>spec. orderer this = Some spec \<longrightarrow>
               ys = order spec xs (last_collection this) \<and>
               ((\<forall>zs f. mset (order spec zs f) = mset zs) \<longrightarrow> mset ys = mset xs)) \<and>
            (orderer this = None \<longrightarrow> ys = xs))"
  using assms
  by (auto simp: GetOperation_execute_built GetOperation_new_def BaseOperation.extend_def
        order_results_def stamp_pageToken_def last_collection_def
        split: option.splits list.splits)

theorem get_execute_ordering_witness:
  "let request = \<lparr>req_action = action_get, req_collections = [''users'', ''orders''],
             req_documents = [''u1''], req_opID = ''1'', encObject = None, req_options = None\<rparr>;
       h = SQLGetOperation action_get [(''users'', Some ''u1'')] ''users_orders'' [];
       q = \<lparr>allResultsEnc = Some [3, 1, 2 :: nat], pageToken = None\<rparr>;
       res = \<lparr>queryResults = Some q\<rparr>
   in GetOperation_execute (\<lambda>spec xs field. sort xs) (\<lambda>h. Inr res)
        ((GetOperation_new request None (Some [''k'', ''ASC'']))
           \<lparr>table := Some ''users_orders'', operation := Some h\<rparr>) =
        ([Execute h], Inr (res\<lparr>queryResults := Some (q\<lparr>allResultsEnc := Some [1, 2, 3]\<rparr>)\<rparr>)) \<and>
      last_collection (GetOperation_new request None (Some [''k'', ''ASC''])) = Some ''orders'' \<and>
      GetOperation_execute (\<lambda>spec xs field. sort xs) (\<lambda>h. Inr res)
        ((GetOperation_new request None None)
           \<lparr>table := Some ''users_orders'', operation := Some h\<rparr>) =
        ([Execute h], Inr res)"
  (is "let request = ?request; h = ?h; q = ?q; res = ?res q in
       GetOperation_execute ?order (?backend res) (?this request h) = _ \<and> _ \<and>
       GetOperation_execute ?order (?backend res) (?that request h) = _")
  using get_execute_ordering [of "?this ?request ?h" ?h "?backend (?res ?q)" "?res ?q" ?q
      "[3, 1, 2]" ?request None "Some [''k'', ''ASC'']" ?order]
    get_execute_ordering [of "?that ?request ?h" ?h "?backend (?res ?q)" "?res ?q" ?q
      "[3, 1, 2]" ?request None None ?order]
  by (simp add: Let_def GetOperation_execute_built order_results_def stamp_pageToken_def
        last_collection_def GetOperation_new_def BaseOperation_new_def BaseOperation.extend_def)

text \<open>
  Claim C10: when the operation is built and the backend answers, the answer
  \<^verbatim>\<open>GetOperation.execute\<close> returns is the answer of the backend in which at most
  \<^verbatim>\<open>queryResults.pageToken\<close> and \<^verbatim>\<open>queryResults.allResultsEnc\<close> have another value; an answer
  without \<^verbatim>\<open>queryResults\<close> is returned as it is, whatever token and ordering the operation
  was made with.
\<close>

theorem get_execute_frame:
  fixes this :: "'a GetOperation_scheme" and res :: "('e, 'q, 's) ServerAnswer_scheme"
  assumes "operation this = Some h" and "backend h = Inr res"
  shows "(queryResults res = None \<longrightarrow>
            GetOperation_execute order backend this = ([Execute h], Inr res)) \<and>
         (\<forall>q. queryResults res = Some q \<longrightarrow>
            (\<exists>pt ar. GetOperation_execute order backend this =
               ([Execute h],
                Inr (res\<lparr>queryResults := Some (q\<lparr>allResultsEnc := ar, pageToken := pt\<rparr>)\<rparr>))))"
proof (intro conjI impI allI)
  assume "queryResults res = None"
  then show "GetOperation_execute order backend this = ([Execute h], Inr res)"
    using assms
    by (simp add: GetOperation_execute_built order_results_def stamp_pageToken_def
          split: option.splits)
next
  fix q assume q: "queryResults res = Some q"
  have "GetOperation_execute order backend this =
          ([Execute h],
           Inr (res\<lparr>queryResults := Some
             (q\<lparr>allResultsEnc :=
                  (case orderer this of
                     None \<Rightarrow> allResultsEnc q
                   | Some spec \<Rightarrow>
                       map_option (\<lambda>xs. order spec xs (last_collection this)) (allResultsEnc q)),
                pageToken :=
                  (case constResToken this of None \<Rightarrow> pageToken q | Some t \<Rightarrow> Some t)\<rparr>)\<rparr>))"
    using assms q
    by (simp add: GetOperation_execute_built order_results_def stamp_pageToken_def
          split: option.splits)
  then show "\<exists>pt ar. GetOperation_execute order backend this =
               ([Execute h],
                Inr (res\<lparr>queryResults := Some (q\<lparr>allResultsEnc := ar, pageToken := pt\<rparr>)\<rparr>))"
    by blast
qed

theorem get_execute_frame_witness:
  "let request = \<lparr>req_action = action_get, req_collections = [''users'', ''orders''],
             req_documents = [''u1''], req_opID = ''1'', encObject = None, req_options = None\<rparr>;
       h = SQLGetOperation action_get [(''users'', Some ''u1'')] ''users_orders'' [];
       q = \<lparr>allResultsEnc = Some [3, 1, 2 :: nat], pageToken = None, \<dots> = ''count: 3''\<rparr>
   in GetOperation_execute (\<lambda>spec xs field. sort xs)
        (\<lambda>h. Inr \<lparr>queryResults = None :: (nat, string) QueryResults_scheme option,
                  \<dots> = ''status: success''\<rparr>)
        ((GetOperation_new request (Some ''T1'') (Some [''k'', ''ASC'']))
           \<lparr>table := Some ''users_orders'', operation := Some h\<rparr>) =
        ([Execute h], Inr \<lparr>queryResults = None, \<dots> = ''status: success''\<rparr>) \<and>
      GetOperation_execute (\<lambda>spec xs field. sort xs)
        (\<lambda>h. Inr \<lparr>queryResults = Some q, \<dots> = ''status: success''\<rparr>)
        ((GetOperation_new request (Some ''T1'') (Some [''k'', ''ASC'']))
           \<lparr>table := Some ''users_orders'', operation := Some h\<rparr>) =
        ([Execute h],
         Inr \<lparr>queryResults =
                Some \<lparr>allResultsEnc = Some [1, 2, 3], pageToken = Some ''T1'',
                      \<dots> = ''count: 3''\<rparr>,
              \<dots> = ''status: success''\<rparr>)"
  (is "let request = ?request; h = ?h; q = ?q in
       GetOperation_execute ?order (\<lambda>h. Inr ?res) (?this request h) = _ \<and>
       GetOperation_execute ?order (\<lambda>h. Inr (?res' q)) (?this request h) = _")
  using get_execute_frame [of "?this ?request ?h" ?h "\<lambda>h. Inr ?res" ?res ?order]
    get_execute_frame [of "?this ?request ?h" ?h "\<lambda>h. Inr (?res' ?q)" "?res' ?q" ?order]
  by (simp add: Let_def GetOperation_execute_built order_results_def stamp_pageToken_def
        last_collection_def GetOperation_new_def BaseOperation_new_def BaseOperation.extend_def)

end
